theory Spec2Isabelle
  imports Complex_Main "HOL-Library.AList" "HOL-Library.Sublist"
begin

section \<open>Python primitives used by the matchers\<close>

text \<open>
  Texts are Python \<open>str\<close> values. A character of the model is a code point below 256;
  floats are idealised as real numbers, so \<open>0.6\<close> is the number 6/10 and no rounding
  error, NaN or negative zero exists in the model.
\<close>

definition is_space :: "char \<Rightarrow> bool" where
  \<comment> \<open>the characters the regex class \<open>\s\<close> and \<open>str.strip\<close> accept, below 256\<close>
  "is_space c = (let n = (of_char c :: nat) in
     (9 \<le> n \<and> n \<le> 13) \<or> (28 \<le> n \<and> n \<le> 32) \<or> n = 133 \<or> n = 160)"

definition is_lower_alnum :: "char \<Rightarrow> bool" where
  \<comment> \<open>the regex class \<open>[a-z0-9]\<close>\<close>
  "is_lower_alnum c = (let n = (of_char c :: nat) in
     (97 \<le> n \<and> n \<le> 122) \<or> (48 \<le> n \<and> n \<le> 57))"

definition lower_char :: "char \<Rightarrow> char" where
  \<comment> \<open>\<open>str.lower\<close> on one code point below 256\<close>
  "lower_char c = (let n = (of_char c :: nat) in
     if (65 \<le> n \<and> n \<le> 90) \<or> (192 \<le> n \<and> n \<le> 222 \<and> n \<noteq> 215)
     then char_of (n + 32) else c)"

definition lower :: "string \<Rightarrow> string" where
  "lower text = map lower_char text"

function collapse_spaces :: "string \<Rightarrow> string" where
  \<comment> \<open>\<open>re.sub(r"\s+", " ", text)\<close>\<close>
  "collapse_spaces [] = []"
| "collapse_spaces (c # cs) =
     (if is_space c then CHR '' '' # collapse_spaces (dropWhile is_space cs)
      else c # collapse_spaces cs)"
  by pat_completeness auto
termination
  by (relation "measure length") (auto simp: length_dropWhile_le less_Suc_eq_le)

definition strip :: "string \<Rightarrow> string" where
  "strip text = rev (dropWhile is_space (rev (dropWhile is_space text)))"

definition preprocess :: "string \<Rightarrow> string" where
  \<comment> \<open>\<open>_preprocess\<close>\<close>
  "preprocess text =
     (let text1 = lower text;
          text2 = map (\<lambda>c. if is_lower_alnum c \<or> is_space c then c else CHR '' '') text1
      in strip (collapse_spaces text2))"

definition round_half_even :: "real \<Rightarrow> int" where
  "round_half_even x =
     (let f = \<lfloor>x\<rfloor>; d = x - of_int f in
      if d < 1 / 2 then f else if 1 / 2 < d then f + 1
      else if even f then f else f + 1)"

definition py_round :: "real \<Rightarrow> nat \<Rightarrow> real" where
  \<comment> \<open>\<open>round(x, ndigits)\<close>: to the nearest multiple of \<open>10 ** -ndigits\<close>, ties to even\<close>
  "py_round x ndigits = of_int (round_half_even (x * 10 ^ ndigits)) / 10 ^ ndigits"

definition digit_char :: "nat \<Rightarrow> char" where
  "digit_char d = char_of (48 + d)"

fun digits :: "nat \<Rightarrow> string" where
  "digits n = (if n < 10 then [digit_char n] else digits (n div 10) @ [digit_char (n mod 10)])"

declare digits.simps [simp del]

definition py_repr :: "real \<Rightarrow> string" where
  \<comment> \<open>\<open>repr\<close> of a float with at most two decimals, as \<open>f"{score}"\<close> prints it\<close>
  "py_repr x =
     (let n = nat (round_half_even (\<bar>x\<bar> * 100)); fp = n mod 100 in
      (if x < 0 then ''-'' else '''') @ digits (n div 100) @ ''.'' @
      (if fp mod 10 = 0 then digits (fp div 10) else [digit_char (fp div 10), digit_char (fp mod 10)]))"

definition format_1f :: "real \<Rightarrow> string" where
  \<comment> \<open>the format \<open>{x:.1f}\<close>\<close>
  "format_1f x =
     (let n = nat (round_half_even (\<bar>x\<bar> * 10)) in
      (if x < 0 then ''-'' else '''') @ digits (n div 10) @ ''.'' @ [digit_char (n mod 10)])"

type_synonym pydict = "(string \<times> real) list"

definition py_dict :: "(string \<times> real) list \<Rightarrow> pydict" where
  \<comment> \<open>\<open>dict(pairs)\<close>: keys in order of first insertion, a later value replaces an earlier\<close>
  "py_dict ps = foldl (\<lambda>d (k, v). AList.update k v d) [] ps"

definition dict_get :: "pydict \<Rightarrow> string \<Rightarrow> real \<Rightarrow> real" where
  \<comment> \<open>\<open>d.get(k, default)\<close>\<close>
  "dict_get d k dflt = (case map_of d k of Some v \<Rightarrow> v | None \<Rightarrow> dflt)"

definition keys :: "pydict \<Rightarrow> string list" where
  "keys d = map fst d"

definition sorted_reverse :: "('a \<Rightarrow> real) \<Rightarrow> 'a list \<Rightarrow> 'a list" where
  \<comment> \<open>\<open>sorted(xs, key=f, reverse=True)\<close>: descending, equal keys keep their order\<close>
  "sorted_reverse f xs = sort_key (\<lambda>x. - f x) xs"

definition slice_to :: "'a list \<Rightarrow> int \<Rightarrow> 'a list" where
  \<comment> \<open>\<open>xs[:n]\<close>; a negative \<open>n\<close> counts from the end\<close>
  "slice_to xs n = (if 0 \<le> n then take (nat n) xs else take (length xs - nat (- n)) xs)"

section \<open>The libraries\<close>

text \<open>
  scikit-learn and sentence-transformers are not part of the repository: they are
  parameters of the model. A fitted two-document TF-IDF matrix is the list of its columns:
  the feature name with its weight in the resume row and in the job row.
\<close>

datatype py_error = ValueError | OSError

record tfidf_config =
  stop_words :: string
  max_features :: nat
  ngram_range :: "nat \<times> nat"
  sublinear_tf :: bool

type_synonym tfidf_matrix = "(string \<times> real \<times> real) list"

record 'm libs =
  fit_transform :: "tfidf_config \<Rightarrow> string \<Rightarrow> string \<Rightarrow> py_error + tfidf_matrix"
  load_model :: "py_error + 'm"
  encode :: "'m \<Rightarrow> string \<Rightarrow> string \<Rightarrow> (real \<times> real) list"

definition feature_names :: "tfidf_matrix \<Rightarrow> string list" where
  "feature_names M = map fst M"

definition row0 :: "tfidf_matrix \<Rightarrow> real list" where
  "row0 M = map (\<lambda>(t, r, j). r) M"

definition row1 :: "tfidf_matrix \<Rightarrow> real list" where
  "row1 M = map (\<lambda>(t, r, j). j) M"

definition l2_normalize :: "real list \<Rightarrow> real list" where
  \<comment> \<open>a row of norm zero is left as it is\<close>
  "l2_normalize x =
     (let n = sqrt (\<Sum>a\<leftarrow>x. a * a) in map (\<lambda>a. a / (if n = 0 then 1 else n)) x)"

definition cosine_similarity :: "real list \<Rightarrow> real list \<Rightarrow> real" where
  \<comment> \<open>sklearn: the dot product of the two normalised rows\<close>
  "cosine_similarity x y = (\<Sum>(a, b)\<leftarrow>zip (l2_normalize x) (l2_normalize y). a * b)"

section \<open>Process state\<close>

datatype event =
  Called_calculate_match_score
| Called_calculate_semantic_match
| Called_fit_transform tfidf_config
| Called_load_model
| Called_encode

record 'm world =
  model :: "'m option"  \<comment> \<open>the module-level \<open>_model\<close>\<close>
  trace :: "event list"

definition log :: "event \<Rightarrow> 'm world \<Rightarrow> 'm world" where
  "log e w = w\<lparr>trace := trace w @ [e]\<rparr>"

section \<open>job\_matcher\<close>

record match_result =
  score :: real
  top_keywords :: "string list"
  analysis :: string

definition keyword_config :: tfidf_config where
  "keyword_config = \<lparr>stop_words = ''english'', max_features = 500, ngram_range = (1, 2),
     sublinear_tf = False\<rparr>"

definition scoring_config :: tfidf_config where
  "scoring_config = \<lparr>stop_words = ''english'', max_features = 1000, ngram_range = (1, 2),
     sublinear_tf = True\<rparr>"

definition common_keywords :: "tfidf_matrix \<Rightarrow> pydict" where
  \<comment> \<open>the loop of \<open>_extract_top_keywords\<close> that fills \<open>common\<close>\<close>
  "common_keywords M =
     (let resume_scores = py_dict (zip (feature_names M) (row0 M));
          job_scores = py_dict (zip (feature_names M) (row1 M))
      in foldl (\<lambda>common word.
           let r_score = dict_get resume_scores word 0;
               j_score = dict_get job_scores word 0
           in if r_score > 0 \<and> j_score > 0 then AList.update word (r_score + j_score) common
              else common) [] (feature_names M))"

definition extract_top_keywords ::
  "'m libs \<Rightarrow> string \<Rightarrow> string \<Rightarrow> int \<Rightarrow> 'm world \<Rightarrow> 'm world \<times> (py_error + string list)" where
  \<comment> \<open>\<open>_extract_top_keywords\<close>: an exception of \<open>fit_transform\<close> is not caught\<close>
  "extract_top_keywords L resume_text job_description top_n w =
     (let w1 = log (Called_fit_transform keyword_config) w in
      case fit_transform L keyword_config resume_text job_description of
        Inl e \<Rightarrow> (w1, Inl e)
      | Inr M \<Rightarrow>
          (let common = common_keywords M;
               sorted_keywords = sorted_reverse (\<lambda>k. dict_get common k 0) (keys common)
           in (w1, Inr (slice_to sorted_keywords top_n))))"

definition lexical_analysis :: "real \<Rightarrow> string" where
  \<comment> \<open>the \<open>if\<close>/\<open>elif\<close> chain of \<open>calculate_match_score\<close>\<close>
  "lexical_analysis sc =
     (if sc \<ge> 80 then
        ''Excellent match ('' @ py_repr sc @ ''%)! Your resume aligns strongly with the '' @
        ''job requirements. Fine-tune specific metrics and achievements.''
      else if sc \<ge> 60 then
        ''Good match ('' @ py_repr sc @ ''%). Your resume covers many requirements. '' @
        ''Consider adding missing keywords and quantifiable results.''
      else if sc \<ge> 40 then
        ''Moderate match ('' @ py_repr sc @ ''%). There are notable gaps. Focus on '' @
        ''incorporating more job-specific terminology and relevant experience.''
      else
        ''Low match ('' @ py_repr sc @ ''%). Significant gaps exist between your resume '' @
        ''and the job description. Consider tailoring your resume specifically '' @
        ''for this role.'')"

definition insufficient_text :: match_result where
  "insufficient_text = \<lparr>score = 0, top_keywords = [],
     analysis = ''Insufficient text provided for analysis.''\<rparr>"

definition no_meaningful_content :: match_result where
  "no_meaningful_content = \<lparr>score = 0, top_keywords = [],
     analysis = ''Could not extract meaningful content for comparison.''\<rparr>"

definition calculate_match_score ::
  "'m libs \<Rightarrow> string \<Rightarrow> string \<Rightarrow> 'm world \<Rightarrow> 'm world \<times> (py_error + match_result)" where
  "calculate_match_score L resume_text job_description w =
     (let w1 = log Called_calculate_match_score w in
      if resume_text = [] \<or> job_description = [] then (w1, Inr insufficient_text)
      else
        let clean_resume = preprocess resume_text;
            clean_job = preprocess job_description;
            w2 = log (Called_fit_transform scoring_config) w1
        in case fit_transform L scoring_config clean_resume clean_job of
             Inl ValueError \<Rightarrow> (w2, Inr no_meaningful_content)
           | Inl e \<Rightarrow> (w2, Inl e)
           | Inr M \<Rightarrow>
               (let similarity = cosine_similarity (row0 M) (row1 M);
                    sc = min (py_round (similarity * 100) 2) 100
                in case extract_top_keywords L clean_resume clean_job 10 w2 of
                     (w3, Inl e) \<Rightarrow> (w3, Inl e)
                   | (w3, Inr kws) \<Rightarrow>
                       (w3, Inr \<lparr>score = sc, top_keywords = kws,
                                 analysis = lexical_analysis sc\<rparr>)))"

definition missing_dict :: "tfidf_matrix \<Rightarrow> pydict" where
  \<comment> \<open>the loop of \<open>get_missing_keywords\<close> that fills \<open>missing\<close>\<close>
  "missing_dict M =
     (let resume_scores = py_dict (zip (feature_names M) (row0 M));
          job_scores = py_dict (zip (feature_names M) (row1 M))
      in foldl (\<lambda>missing word.
           if dict_get resume_scores word 0 = 0 \<and> dict_get job_scores word 0 > 0
           then AList.update word (dict_get job_scores word 0) missing
           else missing) [] (feature_names M))"

definition get_missing_keywords ::
  "'m libs \<Rightarrow> string \<Rightarrow> string \<Rightarrow> int \<Rightarrow> 'm world \<Rightarrow> 'm world \<times> (py_error + string list)" where
  "get_missing_keywords L resume_text job_description top_n w =
     (let clean_resume = preprocess resume_text;
          clean_job = preprocess job_description;
          w1 = log (Called_fit_transform keyword_config) w
      in case fit_transform L keyword_config clean_resume clean_job of
           Inl ValueError \<Rightarrow> (w1, Inr [])
         | Inl e \<Rightarrow> (w1, Inl e)
         | Inr M \<Rightarrow>
             (let missing = missing_dict M;
                  sorted_missing = sorted_reverse (\<lambda>k. dict_get missing k 0) (keys missing)
              in (w1, Inr (slice_to sorted_missing top_n))))"

section \<open>semantic\_matcher\<close>

record semantic_result =
  semantic_score :: real
  embedding_distance :: real

record hybrid_result =
  h_score :: real  \<comment> \<open>key \<open>score\<close>\<close>
  h_semantic_score :: real  \<comment> \<open>key \<open>semantic_score\<close>\<close>
  keyword_score :: real
  h_top_keywords :: "string list"  \<comment> \<open>key \<open>top_keywords\<close>\<close>
  h_analysis :: string  \<comment> \<open>key \<open>analysis\<close>\<close>

definition get_model :: "'m libs \<Rightarrow> 'm world \<Rightarrow> 'm world \<times> (py_error + 'm)" where
  \<comment> \<open>\<open>_get_model\<close>: when the constructor raises, \<open>_model\<close> stays \<open>None\<close>\<close>
  "get_model L w =
     (case model w of
        Some m \<Rightarrow> (w, Inr m)
      | None \<Rightarrow>
          (let w1 = log Called_load_model w in
           case load_model L of
             Inl e \<Rightarrow> (w1, Inl e)
           | Inr m \<Rightarrow> (w1\<lparr>model := Some m\<rparr>, Inr m)))"

definition calculate_semantic_match ::
  "'m libs \<Rightarrow> string \<Rightarrow> string \<Rightarrow> 'm world \<Rightarrow> 'm world \<times> (py_error + semantic_result)" where
  "calculate_semantic_match L resume_text job_description w =
     (let w1 = log Called_calculate_semantic_match w in
      if resume_text = [] \<or> job_description = []
      then (w1, Inr \<lparr>semantic_score = 0, embedding_distance = 1\<rparr>)
      else
        case get_model L w1 of
          (w2, Inl e) \<Rightarrow> (w2, Inl e)
        | (w2, Inr m) \<Rightarrow>
            (let embeddings = encode L m resume_text job_description;
                 similarity = cosine_similarity (map fst embeddings) (map snd embeddings);
                 sc = similarity * 100
             in (log Called_encode w2,
                 Inr \<lparr>semantic_score = min sc 100, embedding_distance = 1 - similarity\<rparr>)))"

definition hybrid_analysis :: "real \<Rightarrow> real \<Rightarrow> real \<Rightarrow> string" where
  \<comment> \<open>the \<open>if\<close>/\<open>elif\<close> chain of \<open>calculate_hybrid_match_score\<close>\<close>
  "hybrid_analysis hybrid_score sem kw =
     (if hybrid_score \<ge> 80 then
        ''Excellent match ('' @ format_1f hybrid_score @ ''%)! Strong semantic alignment '' @
        ''(semantic: '' @ format_1f sem @ ''%, keywords: '' @ format_1f kw @ ''%). '' @
        ''Your resume aligns well with the job requirements.''
      else if hybrid_score \<ge> 60 then
        ''Good match ('' @ format_1f hybrid_score @ ''%). '' @
        ''Semantic similarity: '' @ format_1f sem @ ''%, '' @
        ''Keyword overlap: '' @ format_1f kw @ ''%. '' @
        ''Consider adding more relevant keywords to improve further.''
      else if hybrid_score \<ge> 40 then
        ''Moderate match ('' @ format_1f hybrid_score @ ''%). '' @
        ''Semantic: '' @ format_1f sem @ ''%, Keywords: '' @ format_1f kw @ ''%. '' @
        ''Focus on incorporating more job-specific terminology and relevant experience.''
      else
        ''Low match ('' @ format_1f hybrid_score @ ''%). '' @
        ''Significant gaps exist. Consider tailoring your resume more closely '' @
        ''to the job description with relevant keywords and context.'')"

definition calculate_hybrid_match_score ::
  "'m libs \<Rightarrow> string \<Rightarrow> string \<Rightarrow> 'm world \<Rightarrow> 'm world \<times> (py_error + hybrid_result)" where
  "calculate_hybrid_match_score L resume_text job_description w =
     (case calculate_semantic_match L resume_text job_description w of
        (w1, Inl e) \<Rightarrow> (w1, Inl e)
      | (w1, Inr semantic) \<Rightarrow>
          (case calculate_match_score L resume_text job_description w1 of
             (w2, Inl e) \<Rightarrow> (w2, Inl e)
           | (w2, Inr tfidf) \<Rightarrow>
               (let hybrid_score = semantic_score semantic * (6 / 10) + score tfidf * (4 / 10)
                in (w2, Inr \<lparr>h_score = py_round hybrid_score 2,
                      h_semantic_score = py_round (semantic_score semantic) 2,
                      keyword_score = py_round (score tfidf) 2,
                      h_top_keywords = top_keywords tfidf,
                      h_analysis = hybrid_analysis hybrid_score (semantic_score semantic)
                        (score tfidf)\<rparr>))))"

section \<open>Sample library behaviour\<close>

text \<open>
  Library outputs on a few documents, used to run the matchers on concrete inputs:
  the TF-IDF rows of one-word documents are unit vectors.
\<close>

definition sample_fit :: "tfidf_config \<Rightarrow> string \<Rightarrow> string \<Rightarrow> py_error + tfidf_matrix" where
  "sample_fit cfg a b =
     (if a = ''python'' \<and> b = ''java'' then Inr [(''java'', 0, 1), (''python'', 1, 0)]
      else if a = ''python'' \<and> b = ''python'' then Inr [(''python'', 1, 1)]
      else if a = [] \<and> b = ''python'' then Inr [(''python'', 0, 1)]
      else Inl ValueError)"

definition sample_libs :: "unit libs" where
  "sample_libs = \<lparr>fit_transform = sample_fit, load_model = Inr (),
     encode = (\<lambda>m a b. if a = b then [(1, 1), (0, 0)] else [(1, - 3 / 5), (0, 4 / 5)])\<rparr>"

definition initial_world :: "unit world" where
  "initial_world = \<lparr>model = None, trace = []\<rparr>"




section \<open>Tiers of the analysis\<close>

datatype tier = Excellent | Good | Moderate | Low




section \<open>Missing keywords, in the words of the specification\<close>

definition resume_weight :: "tfidf_matrix \<Rightarrow> string \<Rightarrow> real" where
  \<comment> \<open>the weight of a term in the resume vector; zero for a term outside the vocabulary\<close>
  "resume_weight M t = (case map_of M t of Some (a, b) \<Rightarrow> a | None \<Rightarrow> 0)"

definition job_weight :: "tfidf_matrix \<Rightarrow> string \<Rightarrow> real" where
  "job_weight M t = (case map_of M t of Some (a, b) \<Rightarrow> b | None \<Rightarrow> 0)"

definition missing_ranked :: "tfidf_matrix \<Rightarrow> string list" where
  \<comment> \<open>the spec's words: the terms of weight zero in the resume vector and positive weight
     in the job vector, by job weight descending, ties in vocabulary order\<close>
  "missing_ranked M =
     sort_key (\<lambda>t. - job_weight M t)
       (filter (\<lambda>t. resume_weight M t = 0 \<and> 0 < job_weight M t) (feature_names M))"

section \<open>Events of one call\<close>

definition events_of :: "('m world \<Rightarrow> 'm world \<times> 'a) \<Rightarrow> 'm world \<Rightarrow> event list" where
  \<comment> \<open>what a call appends to the trace\<close>
  "events_of f w = drop (length (trace w)) (trace (fst (f w)))"

section \<open>Evaluation rules\<close>

lemmas eval_text = preprocess_def lower_def lower_char_def is_space_def is_lower_alnum_def
  strip_def char_of_def bit_Suc_0_iff

lemmas eval_number = py_round_def round_half_even_def py_repr_def format_1f_def digits.simps
  digit_char_def cosine_similarity_def l2_normalize_def

lemmas eval_keywords = extract_top_keywords_def common_keywords_def missing_dict_def
  feature_names_def row0_def row1_def py_dict_def dict_get_def keys_def sorted_reverse_def
  slice_to_def

lemmas eval_sample = sample_libs_def sample_fit_def initial_world_def log_def
  keyword_config_def scoring_config_def

section \<open>Empty input\<close>

text \<open>
  C1 (as amended). When the resume text or the job description is the empty string,
  \<open>calculate_match_score\<close> returns the record with score 0.0, no keywords and the
  message "Insufficient text provided for analysis.", and the call builds no vector
  space: the only event of the call is the call itself.
\<close>

theorem empty_input_short_circuits:
  assumes "resume_text = [] \<or> job_description = []"
  shows "snd (calculate_match_score L resume_text job_description w) = Inr insufficient_text \<and>
    events_of (calculate_match_score L resume_text job_description) w =
      [Called_calculate_match_score]"
  using assms by (auto simp: calculate_match_score_def events_of_def log_def)

theorem empty_input_short_circuits_witness:
  "(([]::string) = [] \<or> ''python'' = []) \<and>
   snd (calculate_match_score sample_libs [] ''python'' initial_world) =
     Inr \<lparr>score = 0, top_keywords = [],
       analysis = ''Insufficient text provided for analysis.''\<rparr> \<and>
   events_of (calculate_match_score sample_libs [] ''python'') initial_world =
     [Called_calculate_match_score]"
  using empty_input_short_circuits [of "[]" "''python''" sample_libs initial_world]
  by (simp add: insufficient_text_def)

text \<open>
  A resume of one space is not empty: the guard lets it through, the vector space is
  built twice, and the result is the low-tier record, not the insufficient-text record.
\<close>

theorem blank_resume_counterexample:
  "snd (calculate_match_score sample_libs '' '' ''python'' initial_world) \<noteq>
     Inr insufficient_text \<and>
   snd (calculate_match_score sample_libs '' '' ''python'' initial_world) =
     Inr \<lparr>score = 0, top_keywords = [], analysis =
       ''Low match (0.0%). Significant gaps exist between your resume and the job description. Consider tailoring your resume specifically for this role.''\<rparr> \<and>
   events_of (calculate_match_score sample_libs '' '' ''python'') initial_world =
     [Called_calculate_match_score, Called_fit_transform scoring_config,
      Called_fit_transform keyword_config]"
  by (simp add: calculate_match_score_def events_of_def lexical_analysis_def
      insufficient_text_def eval_text eval_number eval_keywords eval_sample)

section \<open>The semantic score\<close>

text \<open>
  C2. The semantic score is meant to lie between 0 and 100. On two texts whose embeddings
  have cosine similarity -3/5 the code returns the score -60: only the upper bound is
  clamped.
\<close>

theorem semantic_score_negative:
  "snd (calculate_semantic_match sample_libs ''chef'' ''physicist'' initial_world) =
     Inr \<lparr>semantic_score = - 60, embedding_distance = 8 / 5\<rparr>"
  by (simp add: calculate_semantic_match_def get_model_def eval_number eval_sample)

section \<open>The hybrid scorer: calls and state\<close>

lemma trace_get_model: "\<exists>es. trace (fst (get_model L w)) = trace w @ es \<and> set es \<subseteq> {Called_load_model}"
  by (auto simp: get_model_def log_def Let_def split: option.splits sum.splits)



lemma model_lexical: "model (fst (calculate_match_score L r j w)) = model w"
  by (auto simp: calculate_match_score_def extract_top_keywords_def log_def Let_def
      split: option.splits sum.splits prod.splits py_error.splits)

lemma result_lexical:
  "snd (calculate_match_score L r j w) = snd (calculate_match_score L r j w')"
  by (auto simp: calculate_match_score_def extract_top_keywords_def log_def Let_def
      split: option.splits sum.splits prod.splits py_error.splits)

lemma result_semantic_model:
  "model w = model w' \<Longrightarrow>
   snd (calculate_semantic_match L r j w) = snd (calculate_semantic_match L r j w')"
  by (auto simp: calculate_semantic_match_def get_model_def log_def Let_def
      split: option.splits sum.splits prod.splits)

lemma result_semantic_again:
  "snd (calculate_semantic_match L r j (fst (calculate_semantic_match L r j w))) =
   snd (calculate_semantic_match L r j w)"
  by (auto simp: calculate_semantic_match_def get_model_def log_def Let_def
      split: option.splits sum.splits prod.splits)

lemma hybrid_unfold:
  "calculate_hybrid_match_score L r j w =
     (case snd (calculate_semantic_match L r j w) of
        Inl e \<Rightarrow> (fst (calculate_semantic_match L r j w), Inl e)
      | Inr s \<Rightarrow>
         (case snd (calculate_match_score L r j (fst (calculate_semantic_match L r j w))) of
            Inl e \<Rightarrow> (fst (calculate_match_score L r j (fst (calculate_semantic_match L r j w))), Inl e)
          | Inr t \<Rightarrow> (fst (calculate_match_score L r j (fst (calculate_semantic_match L r j w))),
              Inr \<lparr>h_score = py_round (semantic_score s * (6 / 10) + score t * (4 / 10)) 2,
                   h_semantic_score = py_round (semantic_score s) 2,
                   keyword_score = py_round (score t) 2,
                   h_top_keywords = top_keywords t,
                   h_analysis = hybrid_analysis (semantic_score s * (6 / 10) + score t * (4 / 10))
                     (semantic_score s) (score t)\<rparr>)))"
  by (simp add: calculate_hybrid_match_score_def Let_def split: prod.splits sum.splits)




lemma result_hybrid_cong:
  assumes "snd (calculate_semantic_match L r j w) = snd (calculate_semantic_match L r j w')"
  shows "snd (calculate_hybrid_match_score L r j w) = snd (calculate_hybrid_match_score L r j w')"
proof -
  have t: "snd (calculate_match_score L r j (fst (calculate_semantic_match L r j w))) =
        snd (calculate_match_score L r j (fst (calculate_semantic_match L r j w')))"
    by (rule result_lexical)
  show ?thesis
    unfolding hybrid_unfold [of L r j w] hybrid_unfold [of L r j w'] using assms t
    by (auto split: sum.splits)
qed

lemma model_hybrid:
  "model (fst (calculate_hybrid_match_score L r j w)) =
   model (fst (calculate_semantic_match L r j w))"
  by (auto simp: hybrid_unfold model_lexical split: sum.splits)

text \<open>
  C9. The matchers are deterministic. The result of \<open>calculate_match_score\<close> does not
  depend on the process state, and a second call of \<open>calculate_hybrid_match_score\<close> on
  the same input, in the state the first call leaves behind (the model loaded, or the
  load failed), gives the same result as the first, from any starting state.
\<close>

theorem matchers_deterministic:
  "snd (calculate_match_score L r j w) = snd (calculate_match_score L r j w') \<and>
   snd (calculate_hybrid_match_score L r j (fst (calculate_hybrid_match_score L r j w))) =
   snd (calculate_hybrid_match_score L r j w)"
proof -
  have "snd (calculate_semantic_match L r j (fst (calculate_hybrid_match_score L r j w))) =
      snd (calculate_semantic_match L r j (fst (calculate_semantic_match L r j w)))"
    by (rule result_semantic_model) (rule model_hybrid)
  then have "snd (calculate_semantic_match L r j (fst (calculate_hybrid_match_score L r j w))) =
      snd (calculate_semantic_match L r j w)"
    by (simp add: result_semantic_again)
  then have "snd (calculate_hybrid_match_score L r j (fst (calculate_hybrid_match_score L r j w))) =
      snd (calculate_hybrid_match_score L r j w)"
    by (rule result_hybrid_cong)
  then show ?thesis using result_lexical by blast
qed


theorem matchers_deterministic_witness:
  "snd (calculate_match_score sample_libs ''python'' ''java'' initial_world) =
   snd (calculate_match_score sample_libs ''python'' ''java''
     (fst (calculate_match_score sample_libs ''python'' ''java'' initial_world))) \<and>
   snd (calculate_hybrid_match_score sample_libs ''python'' ''java''
     (fst (calculate_hybrid_match_score sample_libs ''python'' ''java'' initial_world))) =
   snd (calculate_hybrid_match_score sample_libs ''python'' ''java'' initial_world)"
  by (rule matchers_deterministic)

section \<open>The hybrid score\<close>





section \<open>The lexical score\<close>










section \<open>Exceptions of the vectorizers\<close>




section \<open>A resume without letters or digits\<close>








lemma map_of_py_dict: "map_of (py_dict ps) = map_of (rev ps)"
proof -
  have "map_of (foldl (\<lambda>d (k, v). AList.update k v d) d ps) = map_of (rev ps @ d)" for d
    by (induction ps arbitrary: d) (auto simp: AList.update_conv' fun_eq_iff)
  then show ?thesis by (simp add: py_dict_def)
qed







section \<open>The analysis string\<close>








section \<open>Missing keywords\<close>

lemma update_fresh: "k \<notin> fst ` set d \<Longrightarrow> AList.update k v d = d @ [(k, v)]"
  by (induction d) auto

lemma foldl_update_filter:
  assumes "distinct ks" and "set ks \<inter> fst ` set d = {}"
  shows "foldl (\<lambda>m k. if P k then AList.update k (f k) m else m) d ks =
    d @ map (\<lambda>k. (k, f k)) (filter P ks)"
  using assms
proof (induction ks arbitrary: d)
  case Nil
  then show ?case by simp
next
  case (Cons k ks)
  show ?case
  proof (cases "P k")
    case True
    have fresh: "k \<notin> fst ` set d" using Cons.prems by auto
    have "set ks \<inter> fst ` set (d @ [(k, f k)]) = {}" using Cons.prems by auto
    then have "foldl (\<lambda>m k. if P k then AList.update k (f k) m else m) (d @ [(k, f k)]) ks =
        (d @ [(k, f k)]) @ map (\<lambda>k. (k, f k)) (filter P ks)"
      using Cons.prems by (intro Cons.IH) auto
    then show ?thesis using True fresh by (simp add: update_fresh)
  next
    case False
    have "set ks \<inter> fst ` set d = {}" using Cons.prems by auto
    then have "foldl (\<lambda>m k. if P k then AList.update k (f k) m else m) d ks =
        d @ map (\<lambda>k. (k, f k)) (filter P ks)"
      using Cons.prems by (intro Cons.IH) auto
    then show ?thesis using False by simp
  qed
qed

lemma map_of_rev_distinct: "distinct (map fst ps) \<Longrightarrow> map_of (rev ps) = map_of ps"
  by (subst map_of_inject_set) (simp_all add: rev_map [symmetric])

lemma zip_rows:
  "zip (feature_names M) (row0 M) = map (\<lambda>(t, a, b). (t, a)) M"
  "zip (feature_names M) (row1 M) = map (\<lambda>(t, a, b). (t, b)) M"
  by (induction M) (auto simp: feature_names_def row0_def row1_def)

lemma dict_get_resume:
  assumes "distinct (feature_names M)"
  shows "dict_get (py_dict (zip (feature_names M) (row0 M))) t 0 = resume_weight M t"
proof -
  have d: "distinct (map fst (map (\<lambda>(t, a, b). (t, a)) M))"
    using assms by (simp add: feature_names_def comp_def case_prod_unfold)
  have "map_of (map (\<lambda>(t, a, b). (t, a)) M) t = map_option fst (map_of M t)"
    by (induction M) auto
  then show ?thesis
    by (simp add: dict_get_def map_of_py_dict zip_rows map_of_rev_distinct [OF d]
        resume_weight_def split: option.splits)
qed

lemma dict_get_job:
  assumes "distinct (feature_names M)"
  shows "dict_get (py_dict (zip (feature_names M) (row1 M))) t 0 = job_weight M t"
proof -
  have d: "distinct (map fst (map (\<lambda>(t, a, b). (t, b)) M))"
    using assms by (simp add: feature_names_def comp_def case_prod_unfold)
  have "map_of (map (\<lambda>(t, a, b). (t, b)) M) t = map_option snd (map_of M t)"
    by (induction M) auto
  then show ?thesis
    by (simp add: dict_get_def map_of_py_dict zip_rows map_of_rev_distinct [OF d]
        job_weight_def split: option.splits)
qed

lemma missing_dict_filter:
  assumes "distinct (feature_names M)"
  shows "missing_dict M = map (\<lambda>t. (t, job_weight M t))
    (filter (\<lambda>t. resume_weight M t = 0 \<and> 0 < job_weight M t) (feature_names M))"
  using foldl_update_filter [of "feature_names M" "[]"
      "\<lambda>t. resume_weight M t = 0 \<and> 0 < job_weight M t" "job_weight M"] assms
  by (simp add: missing_dict_def Let_def dict_get_resume dict_get_job cong: if_cong)

lemma insort_key_cong:
  "f x = g x \<Longrightarrow> \<forall>y\<in>set ys. f y = g y \<Longrightarrow> insort_key f x ys = insort_key g x ys"
  by (induction ys) auto

lemma sort_key_cong: "\<forall>x\<in>set xs. f x = g x \<Longrightarrow> sort_key f xs = sort_key g xs"
  by (induction xs) (auto intro: insort_key_cong)

lemma missing_sorted:
  assumes "distinct (feature_names M)"
  shows "sorted_reverse (\<lambda>k. dict_get (missing_dict M) k 0) (keys (missing_dict M)) =
    missing_ranked M"
proof -
  let ?xs = "filter (\<lambda>t. resume_weight M t = 0 \<and> 0 < job_weight M t) (feature_names M)"
  have k: "keys (missing_dict M) = ?xs"
    by (simp add: missing_dict_filter [OF assms] keys_def comp_def)
  have "dict_get (missing_dict M) t 0 = job_weight M t" if "t \<in> set ?xs" for t
    using that
    by (simp add: missing_dict_filter [OF assms] dict_get_def map_of_map_restrict
        restrict_map_def)
  then have "sort_key (\<lambda>k. - dict_get (missing_dict M) k 0) ?xs =
      sort_key (\<lambda>t. - job_weight M t) ?xs"
    by (intro sort_key_cong) simp
  then show ?thesis
    by (simp add: sorted_reverse_def k missing_ranked_def)
qed

lemma set_slice_to: "set (slice_to xs n) \<subseteq> set xs"
  by (auto simp: slice_to_def dest: in_set_takeD)

lemma sorted_wrt_slice_to: "sorted_wrt R xs \<Longrightarrow> sorted_wrt R (slice_to xs n)"
  by (simp add: slice_to_def sorted_wrt_take)

lemma missing_ranked_descending:
  "sorted_wrt (\<lambda>a b. job_weight M b \<le> job_weight M a) (missing_ranked M)"
proof -
  have "sorted (map (\<lambda>t. - job_weight M t) (missing_ranked M))"
    by (simp add: missing_ranked_def)
  then show ?thesis by (simp add: sorted_map)
qed

text \<open>
  C6. When the vectorizer fits, with distinct feature names, \<open>get_missing_keywords\<close>
  returns the terms of weight zero in the resume vector and positive weight in the job
  vector, ranked by job weight descending, cut to \<open>top_n\<close> by Python's slice (the first
  \<open>top_n\<close> of them when \<open>top_n\<close> is not negative). No returned term has a non-zero
  weight in the resume vector.
\<close>

theorem missing_keywords_ranked:
  assumes "fit_transform L keyword_config (preprocess r) (preprocess j) = Inr M"
    and "distinct (feature_names M)"
  shows "\<exists>ks. snd (get_missing_keywords L r j top_n w) = Inr ks \<and>
    ks = slice_to (missing_ranked M) top_n \<and>
    (0 \<le> top_n \<longrightarrow> ks = take (nat top_n) (missing_ranked M)) \<and>
    (\<forall>t\<in>set ks. resume_weight M t = 0 \<and> 0 < job_weight M t) \<and>
    sorted_wrt (\<lambda>a b. job_weight M b \<le> job_weight M a) ks"
proof -
  have ks: "snd (get_missing_keywords L r j top_n w) = Inr (slice_to (missing_ranked M) top_n)"
    using assms(1) by (simp add: get_missing_keywords_def Let_def missing_sorted [OF assms(2)])
  have "set (slice_to (missing_ranked M) top_n) \<subseteq> set (missing_ranked M)"
    by (rule set_slice_to)
  then have sel: "\<forall>t\<in>set (slice_to (missing_ranked M) top_n).
      resume_weight M t = 0 \<and> 0 < job_weight M t"
    by (auto simp: missing_ranked_def)
  have "sorted_wrt (\<lambda>a b. job_weight M b \<le> job_weight M a) (slice_to (missing_ranked M) top_n)"
    by (intro sorted_wrt_slice_to missing_ranked_descending)
  then show ?thesis using ks sel by (simp add: slice_to_def)
qed

theorem missing_keywords_ranked_witness:
  "fit_transform sample_libs keyword_config (preprocess ''python'') (preprocess ''java'') =
     Inr [(''java'', 0, 1), (''python'', 1, 0)] \<and>
   distinct (feature_names [(''java'', 0, 1), (''python'', 1, 0)]) \<and>
   snd (get_missing_keywords sample_libs ''python'' ''java'' 10 initial_world) = Inr [''java''] \<and>
   snd (get_missing_keywords sample_libs ''python'' ''java'' (- 1) initial_world) = Inr []"
proof -
  have f: "fit_transform sample_libs keyword_config (preprocess ''python'') (preprocess ''java'') =
      Inr [(''java'', 0, 1), (''python'', 1, 0)]"
    by (simp add: sample_libs_def sample_fit_def eval_text)
  have d: "distinct (feature_names [(''java'', 0, 1), (''python'', 1, 0)])"
    by (simp add: feature_names_def)
  have m: "missing_ranked [(''java'', 0, 1), (''python'', 1, 0)] = [''java'']"
    by (simp add: missing_ranked_def feature_names_def resume_weight_def job_weight_def)
  show ?thesis
    using missing_keywords_ranked [OF f d, of 10 initial_world]
      missing_keywords_ranked [OF f d, of "- 1" initial_world] f d m
    by (simp add: slice_to_def)
qed

end
